theory Spec2Isabelle
  imports Complex_Main
begin

section \<open>The light-show test server\<close>

text \<open>
  The program is one request handler class, \<open>LightShowHandler\<close> in \<open>test-server.py\<close>,
  with the methods \<open>do_OPTIONS\<close>, \<open>do_POST\<close> and \<open>log_message\<close>. It runs on top of
  Python's \<open>http.server\<close>, \<open>json\<close> and \<open>datetime\<close> modules. The handler is embedded
  line by line; the library functions it calls are the fields of a record \<open>pylib\<close>, so
  that every theorem about the handler holds whatever the library computes.
\<close>

subsection \<open>Python values\<close>

text \<open>
  \<open>bytes\<close> objects are lists of 8-bit characters. A \<open>str\<close> is a list of code points:
  JSON text can denote any code point, lone surrogates included, and whether a line can
  be printed depends on them.
\<close>

type_synonym bytes = string
type_synonym pystr = "nat list"

definition lit :: "string \<Rightarrow> pystr" where
  "lit s = map of_char s"

definition quoted :: "string \<Rightarrow> string" where
  "quoted s = [CHR 0x27] @ s @ [CHR 0x27]"

text \<open>An exception: its class name and what \<open>str(e)\<close> returns.\<close>

datatype pyexc = PyExc (exc_class: string) (exc_str: pystr)

text \<open>
  The objects \<open>json.loads\<close> returns. \<open>'f\<close> is the type of floats. A \<open>dict\<close> is an
  association list read with \<open>map_of\<close>.
\<close>

datatype 'f pyval =
    PyNone
  | PyBool bool
  | PyInt int
  | PyFloat 'f
  | PyStr pystr
  | PyList "'f pyval list"
  | PyDict "(pystr \<times> 'f pyval) list"

fun type_name :: "'f pyval \<Rightarrow> string" where
  "type_name PyNone = ''NoneType''"
| "type_name (PyBool b) = ''bool''"
| "type_name (PyInt i) = ''int''"
| "type_name (PyFloat x) = ''float''"
| "type_name (PyStr s) = ''str''"
| "type_name (PyList xs) = ''list''"
| "type_name (PyDict d) = ''dict''"

subsection \<open>Requests, responses, outcomes\<close>

text \<open>
  A request as the handler sees it: \<open>self.command\<close>, \<open>self.path\<close>, \<open>self.headers\<close>
  (\<open>self.headers[name]\<close> is \<open>None\<close> for a header that was not sent; the map is keyed by
  the name as the handler writes it) and the bytes that \<open>self.rfile\<close> still holds.
\<close>

record request =
  command :: string
  path :: string
  headers :: "string \<rightharpoonup> string"
  rfile :: bytes

text \<open>
  What the handler sends: the code given to \<open>send_response\<close>, the headers given to
  \<open>send_header\<close> in order, and the bytes written to \<open>self.wfile\<close>. (The \<open>Server\<close>
  and \<open>Date\<close> headers that \<open>send_response\<close> adds on its own are not listed.)
\<close>

record response =
  status :: nat
  sent_headers :: "(string \<times> string) list"
  body :: bytes

text \<open>
  A handler method either sends a response or lets an exception escape; then
  \<open>socketserver\<close> reports it on stderr and closes the connection, and the client gets no
  response at all. \<open>SendError\<close> is the error page \<open>http.server\<close> itself sends.
\<close>

datatype outcome =
    Response response
  | Uncaught pyexc
  | SendError nat string

fun status_of :: "outcome \<Rightarrow> nat option" where
  "status_of (Response r) = Some (status r)"
| "status_of (Uncaught e) = None"
| "status_of (SendError code msg) = Some code"

subsection \<open>The library\<close>

text \<open>
  The library calls of \<open>do_POST\<close>, in the order of the source:
  \<open>int(s)\<close> on a header value, \<open>self.rfile.read(n)\<close>, \<open>bytes.decode('utf-8')\<close>,
  \<open>json.loads\<close>, \<open>int / int\<close> and \<open>float / int\<close>, \<open>datetime.fromtimestamp\<close>,
  \<open>datetime.strftime\<close>, \<open>str(x)\<close> as an f-string applies it, \<open>print\<close> (\<open>None\<close> when
  the line was written, the exception otherwise), \<open>json.dumps\<close> on a dict of strings
  and \<open>str.encode()\<close>. \<open>'t\<close> is the type of \<open>datetime\<close> objects.
\<close>

record ('f, 't) pylib =
  py_int :: "string \<Rightarrow> pyexc + int"
  rfile_read :: "bytes \<Rightarrow> int \<Rightarrow> pyexc + bytes"
  bytes_decode :: "bytes \<Rightarrow> pyexc + pystr"
  json_loads :: "pystr \<Rightarrow> pyexc + 'f pyval"
  int_truediv :: "int \<Rightarrow> int \<Rightarrow> pyexc + 'f"
  float_truediv :: "'f \<Rightarrow> int \<Rightarrow> 'f"
  fromtimestamp :: "'f \<Rightarrow> pyexc + 't"
  strftime :: "'t \<Rightarrow> pystr \<Rightarrow> pystr"
  py_str :: "'f pyval \<Rightarrow> pystr"
  py_print :: "pystr \<Rightarrow> pyexc option"
  json_dumps :: "(pystr \<times> pystr) list \<Rightarrow> pystr"
  str_encode :: "pystr \<Rightarrow> bytes"

subsection \<open>Operations of the language\<close>

text \<open>\<open>int(None)\<close>, which is what \<open>int(self.headers['Content-Length'])\<close> evaluates
  when the header is absent.\<close>

definition int_of_None :: pyexc where
  "int_of_None = PyExc ''TypeError''
     (lit (''int() argument must be a string, a bytes-like object or a real number, not ''
           @ quoted ''NoneType''))"

definition header_int :: "('f, 't) pylib \<Rightarrow> string option \<Rightarrow> pyexc + int" where
  "header_int L h = (case h of None \<Rightarrow> Inl int_of_None | Some s \<Rightarrow> py_int L s)"

text \<open>The attribute lookup \<open>data.get\<close>: only a dict has the method.\<close>

definition no_attribute :: "'f pyval \<Rightarrow> string \<Rightarrow> pyexc" where
  "no_attribute x name =
     PyExc ''AttributeError''
       (lit (quoted (type_name x) @ '' object has no attribute '' @ quoted name))"

definition attr_get :: "'f pyval \<Rightarrow> pyexc + (pystr \<times> 'f pyval) list" where
  "attr_get data =
     (case data of
        PyDict d \<Rightarrow> Inr d
      | _ \<Rightarrow> Inl (no_attribute data ''get''))"

definition dict_get :: "(pystr \<times> 'f pyval) list \<Rightarrow> pystr \<Rightarrow> 'f pyval \<Rightarrow> 'f pyval" where
  "dict_get d k dflt = (case map_of d k of None \<Rightarrow> dflt | Some v \<Rightarrow> v)"

text \<open>
  \<open>x / 1000\<close>: true division. A \<open>bool\<close> is an \<open>int\<close> (\<open>True\<close> is 1), an int may be
  too large for a float, and the other JSON types do not support the operator.
\<close>

definition unsupported_operand :: "'f pyval \<Rightarrow> pyexc" where
  "unsupported_operand x =
     PyExc ''TypeError''
       (lit (''unsupported operand type(s) for /: '' @ quoted (type_name x)
             @ '' and '' @ quoted ''int''))"

definition truediv :: "('f, 't) pylib \<Rightarrow> 'f pyval \<Rightarrow> int \<Rightarrow> pyexc + 'f" where
  "truediv L x n =
     (case x of
        PyInt i \<Rightarrow> int_truediv L i n
      | PyBool b \<Rightarrow> int_truediv L (if b then 1 else 0) n
      | PyFloat y \<Rightarrow> Inr (float_truediv L y n)
      | _ \<Rightarrow> Inl (unsupported_operand x))"

text \<open>A replacement field \<open>{x}\<close> of an f-string: a \<open>str\<close> is inserted as it is.\<close>

definition format_value :: "('f, 't) pylib \<Rightarrow> 'f pyval \<Rightarrow> pystr" where
  "format_value L x = (case x of PyStr s \<Rightarrow> s | _ \<Rightarrow> py_str L x)"

text \<open>The slice \<open>s[:-3]\<close>.\<close>

definition drop_last3 :: "pystr \<Rightarrow> pystr" where
  "drop_last3 s = take (length s - 3) s"

subsection \<open>The handler\<close>

text \<open>\<open>do_OPTIONS\<close>, lines 12 to 17. It prints nothing.\<close>

definition do_OPTIONS :: "request \<Rightarrow> outcome \<times> pystr list" where
  "do_OPTIONS rq =
     (Response \<lparr>status = 200,
                sent_headers = [(''Access-Control-Allow-Origin'', ''*''),
                                (''Access-Control-Allow-Methods'', ''GET, POST, OPTIONS''),
                                (''Access-Control-Allow-Headers'', ''Content-Type'')],
                body = []\<rparr>, [])"

text \<open>
  The expression \<open>datetime.fromtimestamp(data.get('timestamp', 0) / 1000)\<close> of line 26,
  for the dict \<open>data\<close>.
\<close>

definition convert_timestamp ::
  "('f, 't) pylib \<Rightarrow> (pystr \<times> 'f pyval) list \<Rightarrow> pyexc + 't" where
  "convert_timestamp L d =
     (case truediv L (dict_get d (lit ''timestamp'') (PyInt 0)) 1000 of
        Inl e \<Rightarrow> Inl e
      | Inr secs \<Rightarrow> fromtimestamp L secs)"

text \<open>
  Lines 25 and 26 of \<open>do_POST\<close>: decode, parse, convert the timestamp. Once
  \<open>data.get\<close> has been looked up \<open>data\<close> is a dict, which is returned with the
  \<open>datetime\<close>.
\<close>

definition parse_event ::
  "('f, 't) pylib \<Rightarrow> bytes \<Rightarrow> pyexc + ((pystr \<times> 'f pyval) list \<times> 't)" where
  "parse_event L post_data =
     (case bytes_decode L post_data of
        Inl e \<Rightarrow> Inl e
      | Inr text \<Rightarrow>
          (case json_loads L text of
             Inl e \<Rightarrow> Inl e
           | Inr data \<Rightarrow>
               (case attr_get data of
                  Inl e \<Rightarrow> Inl e
                | Inr d \<Rightarrow>
                    (case convert_timestamp L d of
                       Inl e \<Rightarrow> Inl e
                     | Inr timestamp \<Rightarrow> Inr (d, timestamp)))))"

text \<open>The three lines that lines 28 to 30 print.\<close>

definition line_received :: "('f, 't) pylib \<Rightarrow> 't \<Rightarrow> pystr" where
  "line_received L timestamp =
     lit [CHR 0x0A, CHR ''[''] @ drop_last3 (strftime L timestamp (lit ''%H:%M:%S.%f''))
     @ lit ''] Controller Input Received:''"

definition line_controller :: "('f, 't) pylib \<Rightarrow> (pystr \<times> 'f pyval) list \<Rightarrow> pystr" where
  "line_controller L d =
     lit ''  Controller ID: '' @ format_value L (dict_get d (lit ''controller_id'') (PyStr (lit ''Unknown'')))"

definition line_action :: "('f, 't) pylib \<Rightarrow> (pystr \<times> 'f pyval) list \<Rightarrow> pystr" where
  "line_action L d =
     lit ''  Action: '' @ format_value L (dict_get d (lit ''action'') (PyStr (lit ''Unknown'')))"

text \<open>
  Printing lines in order: the first \<open>print\<close> that raises ends the sequence. The result
  is the exception, if any, and the lines that were written.
\<close>

fun print_all :: "('f, 't) pylib \<Rightarrow> pystr list \<Rightarrow> pyexc option \<times> pystr list" where
  "print_all L [] = (None, [])"
| "print_all L (l # ls) =
     (case py_print L l of
        Some e \<Rightarrow> (Some e, [])
      | None \<Rightarrow> (case print_all L ls of (r, out) \<Rightarrow> (r, l # out)))"

definition console_lines ::
  "('f, 't) pylib \<Rightarrow> (pystr \<times> 'f pyval) list \<Rightarrow> 't \<Rightarrow> pystr list" where
  "console_lines L d timestamp =
     [line_received L timestamp, line_controller L d, line_action L d]"

definition log_event ::
  "('f, 't) pylib \<Rightarrow> (pystr \<times> 'f pyval) list \<Rightarrow> 't \<Rightarrow> pyexc option \<times> pystr list" where
  "log_event L d timestamp = print_all L (console_lines L d timestamp)"

text \<open>The body of the \<open>try\<close> statement, lines 25 to 44.\<close>

definition try_body :: "('f, 't) pylib \<Rightarrow> bytes \<Rightarrow> (pyexc + response) \<times> pystr list" where
  "try_body L post_data =
     (case parse_event L post_data of
        Inl e \<Rightarrow> (Inl e, [])
      | Inr (d, timestamp) \<Rightarrow>
          (case log_event L d timestamp of
             (Some e, out) \<Rightarrow> (Inl e, out)
           | (None, out) \<Rightarrow>
               (Inr \<lparr>status = 200,
                     sent_headers = [(''Content-type'', ''application/json''),
                                     (''Access-Control-Allow-Origin'', ''*'')],
                     body = str_encode L (json_dumps L
                       [(lit ''status'', lit ''success''),
                        (lit ''message'',
                         lit ''Received ''
                         @ format_value L (dict_get d (lit ''action'') (PyStr (lit ''unknown'')))
                         @ lit '' command'')])\<rparr>,
                out)))"

text \<open>
  The \<open>except Exception as e\<close> clause, lines 46 to 54. The exceptions the \<open>try\<close>
  block can raise all derive from \<open>Exception\<close>, so the clause takes each of them. Its
  own \<open>print\<close> is not guarded: an exception there leaves \<open>do_POST\<close>.
\<close>

definition error_line :: "pyexc \<Rightarrow> pystr" where
  "error_line e = lit ''Error processing request: '' @ exc_str e"

definition except_clause :: "('f, 't) pylib \<Rightarrow> pyexc \<Rightarrow> outcome \<times> pystr list" where
  "except_clause L e =
     (case py_print L (error_line e) of
        Some e' \<Rightarrow> (Uncaught e', [])
      | None \<Rightarrow>
          (Response \<lparr>status = 400,
                     sent_headers = [(''Content-type'', ''application/json''),
                                     (''Access-Control-Allow-Origin'', ''*'')],
                     body = str_encode L (json_dumps L
                       [(lit ''status'', lit ''error''), (lit ''message'', exc_str e)])\<rparr>,
           [error_line e]))"

text \<open>
  \<open>do_POST\<close>, lines 19 to 57. Lines 21 and 22 (\<open>read_body\<close>) stand before the
  \<open>try\<close>: what they raise is not caught.
\<close>

definition read_body :: "('f, 't) pylib \<Rightarrow> request \<Rightarrow> pyexc + bytes" where
  "read_body L rq =
     (case header_int L (headers rq ''Content-Length'') of
        Inl e \<Rightarrow> Inl e
      | Inr content_length \<Rightarrow> rfile_read L (rfile rq) content_length)"

definition do_POST :: "('f, 't) pylib \<Rightarrow> request \<Rightarrow> outcome \<times> pystr list" where
  "do_POST L rq =
     (if path rq = ''/light-control'' then
        (case read_body L rq of
           Inl e \<Rightarrow> (Uncaught e, [])
         | Inr post_data \<Rightarrow>
             (case try_body L post_data of
                (Inr r, out) \<Rightarrow> (Response r, out)
              | (Inl e, out) \<Rightarrow>
                  (case except_clause L e of (res, out') \<Rightarrow> (res, out @ out'))))
      else (Response \<lparr>status = 404, sent_headers = [], body = []\<rparr>, []))"

text \<open>
  The class: the \<open>do_\<close> methods it defines. \<open>BaseHTTPRequestHandler\<close> defines none, and
  its \<open>handle_one_request\<close> looks the method \<open>'do_' + self.command\<close> up; when there is
  none it calls \<open>send_error(501, "Unsupported method (...)")\<close>. \<open>log_message\<close> is
  overridden to do nothing, so the library itself prints no line on stdout.
\<close>

definition LightShowHandler ::
  "string \<Rightarrow> (('f, 't) pylib \<Rightarrow> request \<Rightarrow> outcome \<times> pystr list) option" where
  "LightShowHandler mname =
     (if mname = ''do_OPTIONS'' then Some (\<lambda>L rq. do_OPTIONS rq)
      else if mname = ''do_POST'' then Some do_POST
      else None)"

definition handle_one_request :: "('f, 't) pylib \<Rightarrow> request \<Rightarrow> outcome \<times> pystr list" where
  "handle_one_request L rq =
     (case LightShowHandler (''do_'' @ command rq) of
        None \<Rightarrow> (SendError 501 (''Unsupported method ('' @ quoted (command rq) @ '')''), [])
      | Some method \<Rightarrow> method L rq)"

text \<open>
  \<open>httpd.serve_forever()\<close>, line 75, handles one request after the other, each with a
  new \<open>LightShowHandler\<close>. The class assigns no attribute and no global, so the only
  thing a request leaves behind is what it printed: the state of the loop is the
  console, the lines printed so far.
\<close>

definition serve :: "('f, 't) pylib \<Rightarrow> pystr list \<Rightarrow> request \<Rightarrow> outcome \<times> pystr list" where
  "serve L console rq =
     (case handle_one_request L rq of (res, out) \<Rightarrow> (res, console @ out))"

section \<open>A sample library\<close>

text \<open>
  One library to run the handler on concrete requests: CPython 3.11 on Linux with
  \<open>TZ=UTC\<close> and a UTF-8 console, as far as the handler can observe it. Floats are
  idealised as real numbers with the two infinities and NaN; a \<open>datetime\<close> is the
  number of seconds since the epoch. Three things are abridged: \<open>str(x)\<close> is exact for
  \<open>None\<close>, booleans, ints and strings only, a timestamp outside the years 1 to 9999
  raises without naming the year, and a read never runs out of memory. No theorem below
  depends on this section except to evaluate \<open>sample_lib\<close> at a request.
\<close>

subsection \<open>Numerals\<close>

fun show_nat :: "nat \<Rightarrow> pystr" where
  "show_nat n = (if n < 10 then [48 + n] else show_nat (n div 10) @ [48 + n mod 10])"

declare show_nat.simps [simp del]

definition show_int :: "int \<Rightarrow> pystr" where
  "show_int i = (if i < 0 then 45 # show_nat (nat (- i)) else show_nat (nat i))"

definition hex4 :: "nat \<Rightarrow> pystr" where
  "hex4 c = map (\<lambda>d. if d < 10 then 48 + d else 87 + d)
              [c div 4096 mod 16, c div 256 mod 16, c div 16 mod 16, c mod 16]"

subsection \<open>\<open>int(s)\<close> and \<open>rfile.read(n)\<close>\<close>

definition is_space :: "nat \<Rightarrow> bool" where
  "is_space c = (c \<in> {9, 10, 11, 12, 13, 28, 29, 30, 31, 32, 133, 160})"

definition is_digit :: "nat \<Rightarrow> bool" where
  "is_digit c = (48 \<le> c \<and> c \<le> 57)"

definition digits_value :: "pystr \<Rightarrow> nat" where
  "digits_value ds = foldl (\<lambda>a c. 10 * a + (c - 48)) 0 ds"

definition starts_with :: "pystr \<Rightarrow> pystr \<Rightarrow> bool" where
  "starts_with p s = (take (length p) s = p)"

text \<open>Digits, with single underscores between them.\<close>

fun digit_groups :: "pystr \<Rightarrow> bool" where
  "digit_groups [] = False"
| "digit_groups [c] = is_digit c"
| "digit_groups (c # u # cs) =
     (is_digit c \<and> (if u = 95 then digit_groups cs else digit_groups (u # cs)))"

definition sample_int :: "string \<Rightarrow> pyexc + int" where
  "sample_int s =
     (let t = rev (dropWhile is_space (rev (dropWhile is_space (lit s))));
          neg = starts_with [45] t;
          body = (if neg \<or> starts_with [43] t then drop 1 t else t);
          ds = filter is_digit body
      in if \<not> digit_groups body
         then Inl (PyExc ''ValueError''
                    (lit (''invalid literal for int() with base 10: '' @ quoted s)))
         else if length ds > 4300
         then Inl (PyExc ''ValueError''
                    (lit ''Exceeds the limit (4300 digits) for integer string conversion: value has ''
                     @ show_nat (length ds)
                     @ lit '' digits; use sys.set_int_max_str_digits() to increase the limit''))
         else Inr (if neg then - int (digits_value ds) else int (digits_value ds)))"

text \<open>Reading up to \<open>n\<close> bytes, all of them for a negative \<open>n\<close>.\<close>

definition sample_read :: "bytes \<Rightarrow> int \<Rightarrow> pyexc + bytes" where
  "sample_read stream n =
     (if n > 2 ^ 63 - 1 \<or> n < - (2 ^ 63)
      then Inl (PyExc ''OverflowError''
                 (lit (''cannot fit '' @ quoted ''int'' @ '' into an index-sized integer'')))
      else if n < 0 then Inr stream
      else Inr (take (nat n) stream))"

subsection \<open>UTF-8\<close>

definition continuation :: "nat \<Rightarrow> bool" where
  "continuation b = (0x80 \<le> b \<and> b \<le> 0xBF)"

text \<open>The second byte of a sequence, which excludes overlong forms, surrogates and code
  points above \<open>0x10FFFF\<close>.\<close>

definition second_byte :: "nat \<Rightarrow> nat \<Rightarrow> bool" where
  "second_byte b c =
     ((if b = 0xE0 then 0xA0 else if b = 0xF0 then 0x90 else 0x80) \<le> c
      \<and> c \<le> (if b = 0xED then 0x9F else if b = 0xF4 then 0x8F else 0xBF))"

definition decoded :: "nat \<Rightarrow> (nat \<times> nat \<times> string) + pystr \<Rightarrow> (nat \<times> nat \<times> string) + pystr" where
  "decoded c res = (case res of Inl e \<Rightarrow> Inl e | Inr s \<Rightarrow> Inr (c # s))"

text \<open>The decoder at position \<open>i\<close>. An error is the start and length of the undecodable
  bytes and the reason.\<close>

fun utf8_decode :: "nat \<Rightarrow> nat list \<Rightarrow> (nat \<times> nat \<times> string) + pystr" where
  "utf8_decode i [] = Inr []"
| "utf8_decode i (b # bs) =
     (if b < 0x80 then decoded b (utf8_decode (i + 1) bs)
      else if b < 0xC2 \<or> 0xF4 < b then Inl (i, 1, ''invalid start byte'')
      else
        (case bs of
           [] \<Rightarrow> Inl (i, 1, ''unexpected end of data'')
         | c1 # r1 \<Rightarrow>
             if \<not> second_byte b c1 then Inl (i, 1, ''invalid continuation byte'')
             else if b \<le> 0xDF
               then decoded ((b - 0xC0) * 64 + (c1 - 0x80)) (utf8_decode (i + 2) r1)
             else
               (case r1 of
                  [] \<Rightarrow> Inl (i, 2, ''unexpected end of data'')
                | c2 # r2 \<Rightarrow>
                    if \<not> continuation c2 then Inl (i, 2, ''invalid continuation byte'')
                    else if b \<le> 0xEF
                      then decoded ((b - 0xE0) * 4096 + (c1 - 0x80) * 64 + (c2 - 0x80))
                             (utf8_decode (i + 3) r2)
                    else
                      (case r2 of
                         [] \<Rightarrow> Inl (i, 3, ''unexpected end of data'')
                       | c3 # r3 \<Rightarrow>
                           if \<not> continuation c3 then Inl (i, 3, ''invalid continuation byte'')
                           else decoded ((b - 0xF0) * 262144 + (c1 - 0x80) * 4096
                                         + (c2 - 0x80) * 64 + (c3 - 0x80))
                                  (utf8_decode (i + 4) r3)))))"

definition sample_decode :: "bytes \<Rightarrow> pyexc + pystr" where
  "sample_decode bs =
     (case utf8_decode 0 (map of_char bs) of
        Inr s \<Rightarrow> Inr s
      | Inl (i, n, reason) \<Rightarrow>
          Inl (PyExc ''UnicodeDecodeError''
                (lit (quoted ''utf-8'' @ '' codec can'' @ [CHR 0x27] @ ''t decode '')
                 @ (if n = 1
                    then lit ''byte 0x'' @ drop 2 (hex4 (of_char (bs ! i))) @ lit '' in position ''
                         @ show_nat i
                    else lit ''bytes in position '' @ show_nat i @ lit ''-'' @ show_nat (i + n - 1))
                 @ lit '': '' @ lit reason)))"

subsection \<open>Floats and \<open>datetime\<close>\<close>

datatype sfloat = Finite real | Infinite bool | NaN

definition sample_int_truediv :: "int \<Rightarrow> int \<Rightarrow> pyexc + sfloat" where
  "sample_int_truediv i n =
     (if \<bar>of_int i / of_int n :: real\<bar> \<ge> 2 ^ 1024
      then Inl (PyExc ''OverflowError'' (lit ''integer division result too large for a float''))
      else Inr (Finite (of_int i / of_int n)))"

definition sample_float_truediv :: "sfloat \<Rightarrow> int \<Rightarrow> sfloat" where
  "sample_float_truediv x n = (case x of Finite q \<Rightarrow> Finite (q / of_int n) | _ \<Rightarrow> x)"

definition sample_fromtimestamp :: "sfloat \<Rightarrow> pyexc + real" where
  "sample_fromtimestamp x =
     (case x of
        NaN \<Rightarrow> Inl (PyExc ''ValueError'' (lit ''Invalid value NaN (not a number)''))
      | Infinite b \<Rightarrow>
          Inl (PyExc ''OverflowError'' (lit ''timestamp out of range for platform time_t''))
      | Finite q \<Rightarrow>
          if \<bar>q\<bar> \<ge> 2 ^ 63
          then Inl (PyExc ''OverflowError'' (lit ''timestamp out of range for platform time_t''))
          else if q < - 62135510400 \<or> q \<ge> 253402300800
          then Inl (PyExc ''ValueError'' (lit ''year is out of range''))
          else Inr q)"

definition two_digits :: "nat \<Rightarrow> pystr" where
  "two_digits n = [48 + n div 10 mod 10, 48 + n mod 10]"

definition six_digits :: "nat \<Rightarrow> pystr" where
  "six_digits n = map (\<lambda>k. 48 + n div 10 ^ k mod 10) [5, 4, 3, 2, 1, 0]"

fun sample_strftime :: "real \<Rightarrow> pystr \<Rightarrow> pystr" where
  "sample_strftime t (p # c # fmt) =
     (let s = nat (\<lfloor>t\<rfloor> mod 86400) in
      if p = 37 \<and> c = 72 then two_digits (s div 3600) @ sample_strftime t fmt
      else if p = 37 \<and> c = 77 then two_digits (s mod 3600 div 60) @ sample_strftime t fmt
      else if p = 37 \<and> c = 83 then two_digits (s mod 60) @ sample_strftime t fmt
      else if p = 37 \<and> c = 102
        then six_digits (nat \<lfloor>(t - of_int \<lfloor>t\<rfloor>) * 1000000\<rfloor>) @ sample_strftime t fmt
      else p # sample_strftime t (c # fmt))"
| "sample_strftime t fmt = fmt"

subsection \<open>\<open>str\<close>, \<open>print\<close>, \<open>json.dumps\<close>, \<open>str.encode\<close>\<close>

definition sample_str :: "sfloat pyval \<Rightarrow> pystr" where
  "sample_str x =
     (case x of
        PyNone \<Rightarrow> lit ''None''
      | PyBool b \<Rightarrow> (if b then lit ''True'' else lit ''False'')
      | PyInt i \<Rightarrow> show_int i
      | PyStr s \<Rightarrow> s
      | _ \<Rightarrow> lit (''<'' @ type_name x @ ''>''))"

definition surrogate :: "nat \<Rightarrow> bool" where
  "surrogate c = (0xD800 \<le> c \<and> c \<le> 0xDFFF)"

definition sample_print :: "pystr \<Rightarrow> pyexc option" where
  "sample_print s =
     (let pre = takeWhile (\<lambda>c. \<not> surrogate c) s;
          run = takeWhile surrogate (dropWhile (\<lambda>c. \<not> surrogate c) s)
      in if run = [] then None
         else Some (PyExc ''UnicodeEncodeError''
                (lit (quoted ''utf-8'' @ '' codec can'' @ [CHR 0x27] @ ''t encode '')
                 @ (if length run = 1
                    then lit (''character '' @ [CHR 0x27, CHR 0x5C] @ ''u'') @ hex4 (hd run)
                         @ lit ([CHR 0x27] @ '' in position '') @ show_nat (length pre)
                    else lit ''characters in position '' @ show_nat (length pre) @ lit ''-''
                         @ show_nat (length pre + length run - 1))
                 @ lit '': surrogates not allowed'')))"

definition escape_char :: "nat \<Rightarrow> pystr" where
  "escape_char c =
     (if c = 34 then [92, 34]
      else if c = 92 then [92, 92]
      else if c = 10 then [92, 110]
      else if c = 13 then [92, 114]
      else if c = 9 then [92, 116]
      else if c = 8 then [92, 98]
      else if c = 12 then [92, 102]
      else if 32 \<le> c \<and> c \<le> 126 then [c]
      else if c < 65536 then [92, 117] @ hex4 c
      else [92, 117] @ hex4 (0xD800 + (c - 65536) div 1024)
           @ [92, 117] @ hex4 (0xDC00 + (c - 65536) mod 1024))"

definition dumps_str :: "pystr \<Rightarrow> pystr" where
  "dumps_str s = [34] @ concat (map escape_char s) @ [34]"

fun dumps_items :: "(pystr \<times> pystr) list \<Rightarrow> pystr" where
  "dumps_items [] = []"
| "dumps_items [(k, v)] = dumps_str k @ lit '': '' @ dumps_str v"
| "dumps_items ((k, v) # kvs) = dumps_str k @ lit '': '' @ dumps_str v @ lit '', '' @ dumps_items kvs"

definition sample_dumps :: "(pystr \<times> pystr) list \<Rightarrow> pystr" where
  "sample_dumps d = lit ''{'' @ dumps_items d @ lit ''}''"

definition sample_encode :: "pystr \<Rightarrow> bytes" where
  "sample_encode s = map char_of s"


subsection \<open>\<open>json.loads\<close>\<close>

text \<open>
  The scanner of the \<open>json\<close> module. A failure is the message and the input that was
  left where it occurred, from which \<open>decode_error\<close> computes line, column and offset.
  The first argument of the three parsing functions bounds the number of nested calls;
  \<open>sample_loads\<close> starts them with twice the length of the text.
\<close>

definition is_ws :: "nat \<Rightarrow> bool" where
  "is_ws c = (c = 32 \<or> c = 9 \<or> c = 10 \<or> c = 13)"

definition skip_ws :: "pystr \<Rightarrow> pystr" where
  "skip_ws s = dropWhile is_ws s"

definition hex_value :: "nat \<Rightarrow> nat option" where
  "hex_value c =
     (if 48 \<le> c \<and> c \<le> 57 then Some (c - 48)
      else if 97 \<le> c \<and> c \<le> 102 then Some (c - 87)
      else if 65 \<le> c \<and> c \<le> 70 then Some (c - 55)
      else None)"

definition uXXXX :: "nat \<Rightarrow> nat \<Rightarrow> nat \<Rightarrow> nat \<Rightarrow> nat option" where
  "uXXXX a b c d =
     (case (hex_value a, hex_value b, hex_value c, hex_value d) of
        (Some w, Some x, Some y, Some z) \<Rightarrow> Some (((w * 16 + x) * 16 + y) * 16 + z)
      | _ \<Rightarrow> None)"

definition unescape :: "nat \<Rightarrow> nat option" where
  "unescape e =
     (if e = 34 \<or> e = 92 \<or> e = 47 then Some e
      else if e = 98 then Some 8
      else if e = 102 then Some 12
      else if e = 110 then Some 10
      else if e = 114 then Some 13
      else if e = 116 then Some 9
      else None)"

type_synonym 'a scan = "(string \<times> pystr) + ('a \<times> pystr)"

definition scan_cons :: "nat \<Rightarrow> pystr scan \<Rightarrow> pystr scan" where
  "scan_cons x res = (case res of Inl e \<Rightarrow> Inl e | Inr (s, rest) \<Rightarrow> Inr (x # s, rest))"

definition bad_uXXXX :: string where
  "bad_uXXXX = ''Invalid '' @ [CHR 0x5C] @ ''uXXXX escape''"

fun scan_string :: "pystr \<Rightarrow> pystr \<Rightarrow> pystr scan" where
  "scan_string start [] = Inl (''Unterminated string starting at'', start)"
| "scan_string start (c # cs) =
     (if c = 34 then Inr ([], cs)
      else if c = 92 then
        (case cs of
           [] \<Rightarrow> Inl (''Unterminated string starting at'', start)
         | e # r \<Rightarrow>
             if e = 117 then
               (case r of
                  h1 # h2 # h3 # h4 # x # r1 \<Rightarrow>
                    (case uXXXX h1 h2 h3 h4 of
                       None \<Rightarrow> Inl (bad_uXXXX, cs)
                     | Some hi \<Rightarrow>
                         (case r1 of
                            u # l1 # l2 # l3 # l4 # y # r2 \<Rightarrow>
                              if 0xD800 \<le> hi \<and> hi \<le> 0xDBFF \<and> x = 92 \<and> u = 117 then
                                (case uXXXX l1 l2 l3 l4 of
                                   None \<Rightarrow> Inl (bad_uXXXX, r1)
                                 | Some lo \<Rightarrow>
                                     if 0xDC00 \<le> lo \<and> lo \<le> 0xDFFF
                                     then scan_cons (65536 + (hi - 0xD800) * 1024 + (lo - 0xDC00))
                                            (scan_string start (y # r2))
                                     else scan_cons hi (scan_string start (x # r1)))
                              else scan_cons hi (scan_string start (x # r1))
                          | _ \<Rightarrow> scan_cons hi (scan_string start (x # r1))))
                | _ \<Rightarrow> Inl (bad_uXXXX, cs))
             else
               (case unescape e of
                  None \<Rightarrow> Inl (''Invalid '' @ [CHR 0x5C] @ ''escape'', c # cs)
                | Some x \<Rightarrow> scan_cons x (scan_string start r)))
      else if c < 32 then Inl (''Invalid control character at'', c # cs)
      else scan_cons c (scan_string start cs))"

definition make_float :: "bool \<Rightarrow> nat \<Rightarrow> int \<Rightarrow> sfloat" where
  "make_float neg m e =
     (let q = (if e \<ge> 0 then of_nat m * 10 ^ nat e else of_nat m / 10 ^ nat (- e)) :: real
      in if q \<ge> 2 ^ 1024 then Infinite neg else Finite (if neg then - q else q))"

definition scan_number :: "pystr \<Rightarrow> (sfloat pyval \<times> pystr) option" where
  "scan_number cs =
     (let neg = starts_with [45] cs;
          r0 = (if neg then drop 1 cs else cs);
          ds = takeWhile is_digit r0;
          ip = (if starts_with [48] ds then [48] else ds);
          r1 = drop (length ip) r0;
          fd = (if starts_with [46] r1 then takeWhile is_digit (drop 1 r1) else []);
          r2 = (if fd = [] then r1 else drop (1 + length fd) r1);
          signed = (starts_with [101] r2 \<or> starts_with [69] r2)
                   \<and> (starts_with [45] (drop 1 r2) \<or> starts_with [43] (drop 1 r2));
          ed = (if starts_with [101] r2 \<or> starts_with [69] r2
                then takeWhile is_digit (drop (if signed then 2 else 1) r2) else []);
          r3 = (if ed = [] then r2 else drop ((if signed then 2 else 1) + length ed) r2);
          e = (if signed \<and> starts_with [45] (drop 1 r2) then - int (digits_value ed)
               else int (digits_value ed))
      in if ip = [] then None
         else if fd = [] \<and> ed = []
           then Some (PyInt (if neg then - int (digits_value ip) else int (digits_value ip)), r3)
         else Some (PyFloat (make_float neg (digits_value (ip @ fd)) (e - int (length fd))), r3))"

fun dict_set :: "pystr \<Rightarrow> 'v \<Rightarrow> (pystr \<times> 'v) list \<Rightarrow> (pystr \<times> 'v) list" where
  "dict_set k v [] = [(k, v)]"
| "dict_set k v ((k', v') # d) = (if k' = k then (k, v) # d else (k', v') # dict_set k v d)"

fun parse_value :: "nat \<Rightarrow> pystr \<Rightarrow> sfloat pyval scan"
  and parse_members :: "nat \<Rightarrow> (pystr \<times> sfloat pyval) list \<Rightarrow> pystr \<Rightarrow> sfloat pyval scan"
  and parse_elements :: "nat \<Rightarrow> sfloat pyval list \<Rightarrow> pystr \<Rightarrow> sfloat pyval scan"
where
  "parse_value 0 cs = Inl (''Expecting value'', cs)"
| "parse_value (Suc n) cs =
     (case cs of
        [] \<Rightarrow> Inl (''Expecting value'', cs)
      | c # r \<Rightarrow>
          if c = 34 then
            (case scan_string cs r of Inl e \<Rightarrow> Inl e | Inr (s, rest) \<Rightarrow> Inr (PyStr s, rest))
          else if c = 123 then
            (case skip_ws r of
               [] \<Rightarrow> Inl (''Expecting property name enclosed in double quotes'', [])
             | c' # r' \<Rightarrow> if c' = 125 then Inr (PyDict [], r') else parse_members n [] (c' # r'))
          else if c = 91 then
            (case skip_ws r of
               [] \<Rightarrow> Inl (''Expecting value'', [])
             | c' # r' \<Rightarrow> if c' = 93 then Inr (PyList [], r') else parse_elements n [] (c' # r'))
          else if starts_with (lit ''null'') cs then Inr (PyNone, drop 4 cs)
          else if starts_with (lit ''true'') cs then Inr (PyBool True, drop 4 cs)
          else if starts_with (lit ''false'') cs then Inr (PyBool False, drop 5 cs)
          else
            (case scan_number cs of
               Some res \<Rightarrow> Inr res
             | None \<Rightarrow>
                 if starts_with (lit ''NaN'') cs then Inr (PyFloat NaN, drop 3 cs)
                 else if starts_with (lit ''Infinity'') cs then Inr (PyFloat (Infinite False), drop 8 cs)
                 else if starts_with (lit ''-Infinity'') cs then Inr (PyFloat (Infinite True), drop 9 cs)
                 else Inl (''Expecting value'', cs)))"
| "parse_members 0 acc cs = Inl (''Expecting value'', cs)"
| "parse_members (Suc n) acc cs =
     (case cs of
        [] \<Rightarrow> Inl (''Expecting property name enclosed in double quotes'', cs)
      | c # r \<Rightarrow>
          if c \<noteq> 34 then Inl (''Expecting property name enclosed in double quotes'', cs)
          else
            (case scan_string cs r of
               Inl e \<Rightarrow> Inl e
             | Inr (k, r1) \<Rightarrow>
                 (case skip_ws r1 of
                    [] \<Rightarrow> Inl (''Expecting '' @ quoted '':'' @ '' delimiter'', [])
                  | c1 # r2 \<Rightarrow>
                      if c1 \<noteq> 58 then Inl (''Expecting '' @ quoted '':'' @ '' delimiter'', c1 # r2)
                      else
                        (case parse_value n (skip_ws r2) of
                           Inl e \<Rightarrow> Inl e
                         | Inr (v, r3) \<Rightarrow>
                             (case skip_ws r3 of
                                [] \<Rightarrow> Inl (''Expecting '' @ quoted '','' @ '' delimiter'', [])
                              | c2 # r4 \<Rightarrow>
                                  if c2 = 125 then Inr (PyDict (dict_set k v acc), r4)
                                  else if c2 = 44 then parse_members n (dict_set k v acc) (skip_ws r4)
                                  else Inl (''Expecting '' @ quoted '','' @ '' delimiter'', c2 # r4))))))"
| "parse_elements 0 acc cs = Inl (''Expecting value'', cs)"
| "parse_elements (Suc n) acc cs =
     (case parse_value n cs of
        Inl e \<Rightarrow> Inl e
      | Inr (v, r1) \<Rightarrow>
          (case skip_ws r1 of
             [] \<Rightarrow> Inl (''Expecting '' @ quoted '','' @ '' delimiter'', [])
           | c # r2 \<Rightarrow>
               if c = 93 then Inr (PyList (acc @ [v]), r2)
               else if c = 44 then parse_elements n (acc @ [v]) (skip_ws r2)
               else Inl (''Expecting '' @ quoted '','' @ '' delimiter'', c # r2)))"

definition decode_error :: "string \<Rightarrow> pystr \<Rightarrow> nat \<Rightarrow> pyexc" where
  "decode_error msg s pos =
     (let before_pos = take pos s;
          line = 1 + length (filter (\<lambda>c. c = 10) before_pos);
          col = 1 + length (takeWhile (\<lambda>c. c \<noteq> 10) (rev before_pos))
      in PyExc ''JSONDecodeError''
           (lit msg @ lit '': line '' @ show_nat line @ lit '' column '' @ show_nat col
            @ lit '' (char '' @ show_nat pos @ lit '')''))"

definition sample_loads :: "pystr \<Rightarrow> pyexc + sfloat pyval" where
  "sample_loads s =
     (if starts_with [0xFEFF] s
      then Inl (decode_error ''Unexpected UTF-8 BOM (decode using utf-8-sig)'' s 0)
      else
        (case parse_value (2 * length s + 2) (skip_ws s) of
           Inl (msg, rest) \<Rightarrow> Inl (decode_error msg s (length s - length rest))
         | Inr (v, rest) \<Rightarrow>
             if skip_ws rest = [] then Inr v
             else Inl (decode_error ''Extra data'' s (length s - length (skip_ws rest)))))"

definition sample_lib :: "(sfloat, real) pylib" where
  "sample_lib =
     \<lparr>py_int = sample_int,
      rfile_read = sample_read,
      bytes_decode = sample_decode,
      json_loads = sample_loads,
      int_truediv = sample_int_truediv,
      float_truediv = sample_float_truediv,
      fromtimestamp = sample_fromtimestamp,
      strftime = sample_strftime,
      py_str = sample_str,
      py_print = sample_print,
      json_dumps = sample_dumps,
      str_encode = sample_encode\<rparr>"

section \<open>Notions used to state the properties\<close>

text \<open>
  The JSON value of the request body: what lines 21, 22 and 25 compute when none of
  them raises.
\<close>

definition request_json :: "('f, 't) pylib \<Rightarrow> request \<Rightarrow> pyexc + 'f pyval" where
  "request_json L rq =
     (case read_body L rq of
        Inl e \<Rightarrow> Inl e
      | Inr post_data \<Rightarrow>
          (case bytes_decode L post_data of
             Inl e \<Rightarrow> Inl e
           | Inr text \<Rightarrow> json_loads L text))"

text \<open>The console accepts each of the lines.\<close>

definition accepts :: "('f, 't) pylib \<Rightarrow> pystr list \<Rightarrow> bool" where
  "accepts L ls = list_all (\<lambda>l. py_print L l = None) ls"

text \<open>The two JSON bodies the handler sends, as the dicts given to \<open>json.dumps\<close>.\<close>

definition json_reply ::
  "('f, 't) pylib \<Rightarrow> nat \<Rightarrow> pystr \<Rightarrow> pystr \<Rightarrow> response" where
  "json_reply L code st msg =
     \<lparr>status = code,
      sent_headers = [(''Content-type'', ''application/json''),
                      (''Access-Control-Allow-Origin'', ''*'')],
      body = str_encode L (json_dumps L [(lit ''status'', st), (lit ''message'', msg)])\<rparr>"

text \<open>
  What a client reads back from a message: the text between the prefix
  \<open>Received\<close> with its blank and the suffix \<open>command\<close> with its blank.
\<close>

definition extract_action :: "pystr \<Rightarrow> pystr option" where
  "extract_action m =
     (if starts_with (lit ''Received '') m \<and> starts_with (rev (lit '' command'')) (rev m)
         \<and> 17 \<le> length m
      then Some (take (length m - 17) (drop 9 m))
      else None)"

text \<open>
  What a client reads from a response: it decodes the body, parses it and takes the
  string under \<open>message\<close>.
\<close>

definition read_message :: "('f, 't) pylib \<Rightarrow> response \<Rightarrow> pystr option" where
  "read_message L r =
     (case bytes_decode L (body r) of
        Inl e \<Rightarrow> None
      | Inr doc \<Rightarrow>
          (case json_loads L doc of
             Inl e \<Rightarrow> None
           | Inr v \<Rightarrow>
               (case v of
                  PyDict d \<Rightarrow>
                    (case map_of d (lit ''message'') of
                       Some (PyStr m) \<Rightarrow> Some m
                     | _ \<Rightarrow> None)
                | _ \<Rightarrow> None)))"

text \<open>
  The round trip: the request is sent, and when the answer is a response with status
  200 the action is read back from its message.
\<close>

definition round_trip :: "('f, 't) pylib \<Rightarrow> request \<Rightarrow> pystr option" where
  "round_trip L rq =
     (case fst (handle_one_request L rq) of
        Response r \<Rightarrow>
          (if status r = 200
           then (case read_message L r of None \<Rightarrow> None | Some m \<Rightarrow> extract_action m)
           else None)
      | _ \<Rightarrow> None)"

text \<open>
  The library reads its own serialisation of a dict of strings back:
  \<open>json.loads(json.dumps(x).encode().decode('utf-8'))\<close> is \<open>x\<close>.
\<close>

definition reads_back :: "('f, 't) pylib \<Rightarrow> (pystr \<times> pystr) list \<Rightarrow> bool" where
  "reads_back L kvs =
     (case bytes_decode L (str_encode L (json_dumps L kvs)) of
        Inl e \<Rightarrow> False
      | Inr doc \<Rightarrow> json_loads L doc = Inr (PyDict (map (\<lambda>(k, v). (k, PyStr v)) kvs)))"

text \<open>A POST request to \<open>/light-control\<close> whose \<open>Content-Length\<close> is the length of
  the bytes sent.\<close>

definition post_light_control :: "bytes \<Rightarrow> request" where
  "post_light_control data =
     \<lparr>command = ''POST'', path = ''/light-control'',
      headers = [''Content-Length'' \<mapsto> map char_of (show_nat (length data))],
      rfile = data\<rparr>"

section \<open>Preflight requests\<close>

text \<open>
  C5. Every OPTIONS request, whatever its path, headers and body, is answered with
  status 200, an empty body and exactly the three CORS headers
  \<open>Access-Control-Allow-Origin: *\<close>, \<open>Access-Control-Allow-Methods: GET, POST, OPTIONS\<close>
  and \<open>Access-Control-Allow-Headers: Content-Type\<close>; nothing is printed.
\<close>

theorem options_preflight:
  assumes "command rq = ''OPTIONS''"
  shows "handle_one_request L rq =
           (Response \<lparr>status = 200,
                      sent_headers = [(''Access-Control-Allow-Origin'', ''*''),
                                      (''Access-Control-Allow-Methods'', ''GET, POST, OPTIONS''),
                                      (''Access-Control-Allow-Headers'', ''Content-Type'')],
                      body = []\<rparr>, [])"
  using assms by (simp add: handle_one_request_def LightShowHandler_def do_OPTIONS_def)

theorem options_preflight_witness:
  "command \<lparr>command = ''OPTIONS'', path = ''/anything'', headers = Map.empty, rfile = ''ignored''\<rparr>
     = ''OPTIONS''
   \<and> handle_one_request sample_lib
         \<lparr>command = ''OPTIONS'', path = ''/anything'', headers = Map.empty, rfile = ''ignored''\<rparr>
     = (Response \<lparr>status = 200,
                   sent_headers = [(''Access-Control-Allow-Origin'', ''*''),
                                   (''Access-Control-Allow-Methods'', ''GET, POST, OPTIONS''),
                                   (''Access-Control-Allow-Headers'', ''Content-Type'')],
                   body = []\<rparr>, [])"
  using options_preflight [of "\<lparr>command = ''OPTIONS'', path = ''/anything'', headers = Map.empty, rfile = ''ignored''\<rparr>" sample_lib]
  by simp

section \<open>Auxiliary facts\<close>

lemma print_all_accepts: "accepts L ls \<Longrightarrow> print_all L ls = (None, ls)"
  by (induction ls) (simp_all add: accepts_def)

lemma print_all_refused:
  "\<not> accepts L ls \<Longrightarrow> \<exists>e out. print_all L ls = (Some e, out)"
  by (induction ls) (auto simp: accepts_def split: option.splits prod.splits)

lemma handle_POST:
  "command rq = ''POST'' \<Longrightarrow> handle_one_request L rq = do_POST L rq"
  by (simp add: handle_one_request_def LightShowHandler_def)

lemma request_json_cases:
  assumes "request_json L rq = Inr v"
  obtains post_data doc where "read_body L rq = Inr post_data"
    and "bytes_decode L post_data = Inr doc" and "json_loads L doc = Inr v"
  using assms by (auto simp: request_json_def split: sum.splits)

lemma do_POST_body:
  assumes "path rq = ''/light-control''" and "read_body L rq = Inr post_data"
  shows "do_POST L rq =
           (case try_body L post_data of
              (Inr r, out) \<Rightarrow> (Response r, out)
            | (Inl e, out) \<Rightarrow> (case except_clause L e of (res, out') \<Rightarrow> (res, out @ out')))"
  using assms by (simp add: do_POST_def)

lemma parse_event_dict:
  assumes "bytes_decode L post_data = Inr doc" and "json_loads L doc = Inr (PyDict d)"
  shows "parse_event L post_data =
           (case convert_timestamp L d of Inl e \<Rightarrow> Inl e | Inr t \<Rightarrow> Inr (d, t))"
  using assms by (simp add: parse_event_def attr_get_def)

lemma parse_event_non_dict:
  assumes "bytes_decode L post_data = Inr doc" and "json_loads L doc = Inr v"
    and "type_name v \<noteq> ''dict''"
  shows "parse_event L post_data = Inl (no_attribute v ''get'')"
  using assms by (cases v) (simp_all add: parse_event_def attr_get_def)

lemma try_body_success:
  assumes "bytes_decode L post_data = Inr doc" and "json_loads L doc = Inr (PyDict d)"
    and "convert_timestamp L d = Inr t" and "accepts L (console_lines L d t)"
  shows "try_body L post_data =
           (Inr (json_reply L 200 (lit ''success'')
                   (lit ''Received ''
                    @ format_value L (dict_get d (lit ''action'') (PyStr (lit ''unknown'')))
                    @ lit '' command'')),
            console_lines L d t)"
  using assms
  by (simp add: try_body_def parse_event_dict log_event_def print_all_accepts json_reply_def)

lemma try_body_Inr:
  assumes "bytes_decode L post_data = Inr doc" and "json_loads L doc = Inr (PyDict d)"
    and "try_body L post_data = (Inr r, out)"
  shows "r = json_reply L 200 (lit ''success'')
               (lit ''Received ''
                @ format_value L (dict_get d (lit ''action'') (PyStr (lit ''unknown'')))
                @ lit '' command'')"
  using assms
  by (auto simp: try_body_def parse_event_dict json_reply_def
           split: sum.splits prod.splits option.splits)

lemma except_clause_accepted:
  assumes "py_print L (error_line e) = None"
  shows "except_clause L e =
           (Response (json_reply L 400 (lit ''error'') (exc_str e)), [error_line e])"
  using assms by (simp add: except_clause_def json_reply_def)

lemma except_clause_not_200: "status_of (fst (except_clause L e)) \<noteq> Some 200"
  by (simp add: except_clause_def split: option.splits)

lemma do_POST_parse_error:
  assumes "path rq = ''/light-control''" and "read_body L rq = Inr post_data"
    and "parse_event L post_data = Inl e"
  shows "do_POST L rq = except_clause L e"
  using assms by (simp add: do_POST_body try_body_def split: prod.splits)

lemma accepted_outcome:
  assumes "command rq = ''POST''" and "path rq = ''/light-control''"
    and "request_json L rq = Inr (PyDict d)"
    and "convert_timestamp L d = Inr t"
    and "accepts L (console_lines L d t)"
  shows "handle_one_request L rq =
           (Response (json_reply L 200 (lit ''success'')
                        (lit ''Received ''
                         @ format_value L (dict_get d (lit ''action'') (PyStr (lit ''unknown'')))
                         @ lit '' command'')),
            console_lines L d t)"
proof -
  from assms(3) obtain post_data doc where
    rd: "read_body L rq = Inr post_data" and
    dec: "bytes_decode L post_data = Inr doc" and
    js: "json_loads L doc = Inr (PyDict d)"
    by (rule request_json_cases)
  show ?thesis
    using assms(1) do_POST_body [OF assms(2) rd] try_body_success [OF dec js assms(4) assms(5)]
    by (simp add: handle_POST)
qed

text \<open>
  Rewrite rules that evaluate the sample library and the handler on a concrete request.
  The parsing functions count their first argument down from a numeral.
\<close>

lemmas parse_numeral =
  parse_value.simps(2) [of "pred_numeral k" for k, folded numeral_eq_Suc]
  parse_members.simps(2) [of "pred_numeral k" for k, folded numeral_eq_Suc]
  parse_elements.simps(2) [of "pred_numeral k" for k, folded numeral_eq_Suc]

lemmas sample_eval =
  sample_lib_def Let_def lit_def quoted_def
  sample_loads_def starts_with_def skip_ws_def is_ws_def parse_numeral scan_cons_def
  scan_number_def is_digit_def digits_value_def uXXXX_def hex_value_def unescape_def
  decode_error_def show_nat.simps bad_uXXXX_def
  sample_decode_def decoded_def second_byte_def continuation_def
  sample_int_def is_space_def sample_read_def
  sample_int_truediv_def sample_float_truediv_def sample_fromtimestamp_def
  two_digits_def six_digits_def sample_str_def show_int_def
  sample_print_def surrogate_def hex4_def
  sample_dumps_def dumps_str_def escape_char_def sample_encode_def char_of_def bit_Suc_0_iff

lemmas handler_eval =
  post_light_control_def read_body_def header_int_def request_json_def
  convert_timestamp_def truediv_def dict_get_def unsupported_operand_def no_attribute_def
  console_lines_def line_received_def line_controller_def line_action_def
  format_value_def drop_last3_def accepts_def error_line_def json_reply_def int_of_None_def

lemmas request_eval =
  handle_one_request_def LightShowHandler_def do_OPTIONS_def do_POST_def try_body_def
  parse_event_def attr_get_def log_event_def except_clause_def serve_def

section \<open>Accepted events\<close>

text \<open>
  C1, as the code has it. A POST request to \<open>/light-control\<close> whose body is read without
  error and is a UTF-8 JSON object, whose timestamp (0 when absent) is converted without
  error, and whose three console lines the console accepts, is answered with status 200
  and the JSON object with status \<open>success\<close> and the message \<open>Received\<close>, the action,
  \<open>command\<close>, where the action is the \<open>action\<close> value as an f-string formats it (the
  string itself when it is a string) and \<open>unknown\<close> when there is none.
\<close>

theorem post_object_accepted:
  assumes "command rq = ''POST''" and "path rq = ''/light-control''"
    and "request_json L rq = Inr (PyDict d)"
    and "convert_timestamp L d = Inr t"
    and "accepts L (console_lines L d t)"
  shows "handle_one_request L rq =
           (Response (json_reply L 200 (lit ''success'')
                        (lit ''Received ''
                         @ format_value L (dict_get d (lit ''action'') (PyStr (lit ''unknown'')))
                         @ lit '' command'')),
            console_lines L d t)"
  using assms by (rule accepted_outcome)

text \<open>The scenario of the specification with the action \<open>flash_red\<close>.\<close>

theorem post_object_accepted_witness:
  "request_json sample_lib (post_light_control ''{\"timestamp\":1700000000000,\"controller_id\":\"ctrl-1\",\"action\":\"flash_red\"}'') = Inr (PyDict [(lit ''timestamp'', PyInt 1700000000000), (lit ''controller_id'', PyStr (lit ''ctrl-1'')),
      (lit ''action'', PyStr (lit ''flash_red''))])
   \<and> convert_timestamp sample_lib [(lit ''timestamp'', PyInt 1700000000000), (lit ''controller_id'', PyStr (lit ''ctrl-1'')),
      (lit ''action'', PyStr (lit ''flash_red''))] = Inr 1700000000
   \<and> accepts sample_lib (console_lines sample_lib [(lit ''timestamp'', PyInt 1700000000000), (lit ''controller_id'', PyStr (lit ''ctrl-1'')),
      (lit ''action'', PyStr (lit ''flash_red''))] 1700000000)
   \<and> handle_one_request sample_lib (post_light_control ''{\"timestamp\":1700000000000,\"controller_id\":\"ctrl-1\",\"action\":\"flash_red\"}'')
       = (Response \<lparr>status = 200, sent_headers = [(''Content-type'', ''application/json''),
                                (''Access-Control-Allow-Origin'', ''*'')],
                     body = ''{\"status\": \"success\", \"message\": \"Received flash_red command\"}''\<rparr>,
          [lit (CHR 0x0A # ''[22:13:20.000] Controller Input Received:''),
           lit ''  Controller ID: ctrl-1'', lit ''  Action: flash_red''])"
proof -
  let ?rq = "post_light_control ''{\"timestamp\":1700000000000,\"controller_id\":\"ctrl-1\",\"action\":\"flash_red\"}''"
  let ?d = "[(lit ''timestamp'', PyInt 1700000000000), (lit ''controller_id'', PyStr (lit ''ctrl-1'')),
      (lit ''action'', PyStr (lit ''flash_red''))]"
  have c: "command ?rq = ''POST''" and p: "path ?rq = ''/light-control''"
    by (simp_all add: post_light_control_def)
  have rj: "request_json sample_lib ?rq = Inr (PyDict ?d)"
    by (simp add: sample_eval handler_eval)
  have ct: "convert_timestamp sample_lib ?d = Inr 1700000000"
    by (simp add: sample_eval handler_eval)
  have ac: "accepts sample_lib (console_lines sample_lib ?d 1700000000)"
    by (simp add: sample_eval handler_eval)
  have reply: "json_reply sample_lib 200 (lit ''success'')
                 (lit ''Received ''
                  @ format_value sample_lib (dict_get ?d (lit ''action'') (PyStr (lit ''unknown'')))
                  @ lit '' command'')
               = \<lparr>status = 200, sent_headers = [(''Content-type'', ''application/json''),
                                (''Access-Control-Allow-Origin'', ''*'')],
                  body = ''{\"status\": \"success\", \"message\": \"Received flash_red command\"}''\<rparr>"
    by (simp add: sample_eval handler_eval)
  have lines: "console_lines sample_lib ?d 1700000000
               = [lit (CHR 0x0A # ''[22:13:20.000] Controller Input Received:''),
                  lit ''  Controller ID: ctrl-1'', lit ''  Action: flash_red'']"
    by (simp add: sample_eval handler_eval)
  show ?thesis
    using post_object_accepted [OF c p rj ct ac] rj ct ac by (simp only: reply lines simp_thms)
qed

text \<open>The scenario with the empty object.\<close>

lemma post_empty_object:
  "handle_one_request sample_lib (post_light_control ''{}'')
     = (Response \<lparr>status = 200, sent_headers = [(''Content-type'', ''application/json''),
                                (''Access-Control-Allow-Origin'', ''*'')],
                   body = ''{\"status\": \"success\", \"message\": \"Received unknown command\"}''\<rparr>,
        [lit (CHR 0x0A # ''[00:00:00.000] Controller Input Received:''),
         lit ''  Controller ID: Unknown'', lit ''  Action: Unknown''])"
  by (simp add: sample_eval handler_eval request_eval)

text \<open>
  Two JSON objects that are answered with 400: one whose timestamp is a string, and one
  without timestamp whose action is a lone surrogate, which the console cannot encode.
\<close>

theorem post_object_counterexample:
  "request_json sample_lib (post_light_control ''{\"timestamp\":\"abc\",\"action\":\"flash_red\"}'')
     = Inr (PyDict [(lit ''timestamp'', PyStr (lit ''abc'')),
                    (lit ''action'', PyStr (lit ''flash_red''))])
   \<and> handle_one_request sample_lib
         (post_light_control ''{\"timestamp\":\"abc\",\"action\":\"flash_red\"}'')
       = (Response \<lparr>status = 400, sent_headers = [(''Content-type'', ''application/json''),
                                (''Access-Control-Allow-Origin'', ''*'')],
                     body = ''{\"status\": \"error\", \"message\": \"unsupported operand type(s) for /: 'str' and 'int'\"}''\<rparr>,
          [lit (''Error processing request: unsupported operand type(s) for /: 'str' and ''
                @ quoted ''int'')])
   \<and> request_json sample_lib
         (post_light_control (''{\"action\":\"'' @ [CHR 0x5C] @ ''ud800\"}''))
       = Inr (PyDict [(lit ''action'', PyStr [0xD800])])
   \<and> convert_timestamp sample_lib [(lit ''action'', PyStr [0xD800])] = Inr 0
   \<and> handle_one_request sample_lib
         (post_light_control (''{\"action\":\"'' @ [CHR 0x5C] @ ''ud800\"}''))
       = (Response \<lparr>status = 400, sent_headers = [(''Content-type'', ''application/json''),
                                (''Access-Control-Allow-Origin'', ''*'')],
                     body = ''{\"status\": \"error\", \"message\": \"'utf-8' codec can't encode character ''
                            @ [CHR 0x27, CHR 0x5C, CHR 0x5C]
                            @ ''ud800' in position 10: surrogates not allowed\"}''\<rparr>,
          [lit (CHR 0x0A # ''[00:00:00.000] Controller Input Received:''),
           lit ''  Controller ID: Unknown'',
           lit (''Error processing request: 'utf-8' codec can't encode character ''
                @ [CHR 0x27, CHR 0x5C] @ ''ud800' in position 10: surrogates not allowed'')])"
  by (simp add: sample_eval handler_eval request_eval)

section \<open>Malformed requests\<close>

text \<open>
  An exception raised in the \<open>try\<close> block is answered with 400 and its description, provided
  the console accepts the error line.
\<close>

lemma do_POST_try_error:
  assumes "path rq = ''/light-control''" and "read_body L rq = Inr post_data"
    and "try_body L post_data = (Inl e, out)" and "py_print L (error_line e) = None"
  shows "do_POST L rq =
           (Response (json_reply L 400 (lit ''error'') (exc_str e)), out @ [error_line e])"
  using assms by (simp add: do_POST_body except_clause_accepted)

text \<open>
  Bodies that are not UTF-8 or not JSON: the two parts of C3 that hold.
\<close>

lemma malformed_body_rejected:
  assumes "command rq = ''POST''" and "path rq = ''/light-control''"
    and "read_body L rq = Inr post_data"
    and "bytes_decode L post_data = Inl e
         \<or> (\<exists>doc. bytes_decode L post_data = Inr doc \<and> json_loads L doc = Inl e)"
    and "py_print L (error_line e) = None"
  shows "handle_one_request L rq =
           (Response (json_reply L 400 (lit ''error'') (exc_str e)), [error_line e])"
proof -
  from assms(4) have "parse_event L post_data = Inl e"
    by (auto simp: parse_event_def)
  with assms show ?thesis
    by (simp add: handle_POST do_POST_parse_error except_clause_accepted)
qed

text \<open>
  The scenario of the specification with the body \<open>not-json\<close>, and a body that is not UTF-8.
\<close>

lemma post_not_json:
  "handle_one_request sample_lib (post_light_control ''not-json'')
     = (Response \<lparr>status = 400, sent_headers = [(''Content-type'', ''application/json''),
                                (''Access-Control-Allow-Origin'', ''*'')],
                   body = ''{\"status\": \"error\", \"message\": \"Expecting value: line 1 column 1 (char 0)\"}''\<rparr>,
        [lit ''Error processing request: Expecting value: line 1 column 1 (char 0)''])"
  by (simp add: sample_eval handler_eval request_eval)

lemma post_not_utf8:
  "handle_one_request sample_lib (post_light_control [CHR 0xFF])
     = (Response \<lparr>status = 400, sent_headers = [(''Content-type'', ''application/json''),
                                (''Access-Control-Allow-Origin'', ''*'')],
                   body = ''{\"status\": \"error\", \"message\": \"'utf-8' codec can't decode byte 0xff in position 0: invalid start byte\"}''\<rparr>,
        [lit ''Error processing request: 'utf-8' codec can't decode byte 0xff in position 0: invalid start byte''])"
  by (simp add: sample_eval handler_eval request_eval)

text \<open>
  C2, where the code departs from it. An error raised while the request is read (lines 21 and
  22: a missing or malformed \<open>Content-Length\<close>, a failing \<open>read\<close>) is raised before the
  \<open>try\<close> statement: it leaves \<open>do_POST\<close>, no response is sent and nothing is printed.
\<close>

theorem read_error_escapes:
  assumes "command rq = ''POST''" and "path rq = ''/light-control''"
    and "read_body L rq = Inl e"
  shows "handle_one_request L rq = (Uncaught e, [])"
  using assms by (simp add: handle_POST do_POST_def)

theorem read_error_escapes_witness:
  "read_body sample_lib
     \<lparr>command = ''POST'', path = ''/light-control'', headers = Map.empty, rfile = []\<rparr>
     = Inl int_of_None
   \<and> handle_one_request sample_lib
         \<lparr>command = ''POST'', path = ''/light-control'', headers = Map.empty, rfile = []\<rparr>
       = (Uncaught int_of_None, [])"
proof -
  let ?rq = "\<lparr>command = ''POST'', path = ''/light-control'', headers = Map.empty, rfile = []\<rparr>"
  have rb: "read_body sample_lib ?rq = Inl int_of_None"
    by (simp add: read_body_def header_int_def)
  show ?thesis
    using read_error_escapes [of ?rq sample_lib int_of_None] rb by simp
qed

text \<open>
  C3, where the code departs from it. A POST request to \<open>/light-control\<close> without a
  \<open>Content-Length\<close> header gets no response: \<open>int(None)\<close> raises a \<open>TypeError\<close> outside the
  \<open>try\<close> statement.
\<close>

theorem no_content_length_no_response:
  "handle_one_request sample_lib
     \<lparr>command = ''POST'', path = ''/light-control'', headers = Map.empty,
      rfile = ''{\"action\":\"flash_red\"}''\<rparr>
     = (Uncaught (PyExc ''TypeError''
          (lit (''int() argument must be a string, a bytes-like object or a real number, not ''
                @ quoted ''NoneType''))), [])
   \<and> status_of (fst (handle_one_request sample_lib
         \<lparr>command = ''POST'', path = ''/light-control'', headers = Map.empty,
          rfile = ''{\"action\":\"flash_red\"}''\<rparr>)) = None"
  by (simp add: handle_POST do_POST_def read_body_def header_int_def int_of_None_def)

section \<open>Other paths and methods\<close>

text \<open>
  C4, as the code has it. A POST request to any path other than \<open>/light-control\<close> is answered
  with 404, no header of the handler and an empty body. The class has no \<open>do_GET\<close>: a GET
  request, whatever its path, never reaches the handler and \<open>http.server\<close> answers it with
  its error page for 501.
\<close>

theorem unrouted_requests:
  "(command rq = ''POST'' \<and> path rq \<noteq> ''/light-control'' \<longrightarrow>
      handle_one_request L rq = (Response \<lparr>status = 404, sent_headers = [], body = []\<rparr>, []))
   \<and> (command rq = ''GET'' \<longrightarrow>
      handle_one_request L rq
        = (SendError 501 (''Unsupported method ('' @ quoted ''GET'' @ '')''), []))"
  by (simp add: handle_one_request_def LightShowHandler_def do_POST_def)

theorem unrouted_requests_witness:
  "handle_one_request sample_lib
     \<lparr>command = ''POST'', path = ''/light-control/'', headers = [''Content-Length'' \<mapsto> ''2''],
      rfile = ''{}''\<rparr>
     = (Response \<lparr>status = 404, sent_headers = [], body = []\<rparr>, [])
   \<and> handle_one_request sample_lib
         \<lparr>command = ''GET'', path = ''/'', headers = Map.empty, rfile = []\<rparr>
       = (SendError 501 (''Unsupported method ('' @ quoted ''GET'' @ '')''), [])"
  using unrouted_requests
          [of "\<lparr>command = ''POST'', path = ''/light-control/'',
                 headers = [''Content-Length'' \<mapsto> ''2''], rfile = ''{}''\<rparr>" sample_lib]
        unrouted_requests
          [of "\<lparr>command = ''GET'', path = ''/'', headers = Map.empty, rfile = []\<rparr>" sample_lib]
  by simp

text \<open>
  A GET request is not answered with 404.
\<close>

theorem get_counterexample:
  "handle_one_request sample_lib
     \<lparr>command = ''GET'', path = ''/light-control'', headers = Map.empty, rfile = []\<rparr>
     = (SendError 501 ''Unsupported method ('GET')'', [])
   \<and> status_of (fst (handle_one_request sample_lib
         \<lparr>command = ''GET'', path = ''/light-control'', headers = Map.empty, rfile = []\<rparr>))
       = Some 501"
  by (simp add: handle_one_request_def LightShowHandler_def quoted_def)

section \<open>Round trip of the action\<close>

text \<open>Reading the action back from a message.\<close>

lemma extract_action_message:
  "extract_action (lit ''Received '' @ a @ lit '' command'') = Some a"
  by (simp add: extract_action_def starts_with_def lit_def)

lemma read_message_reply:
  assumes "reads_back L [(lit ''status'', st), (lit ''message'', m)]"
  shows "read_message L (json_reply L code st m) = Some m"
  using assms
  by (auto simp: reads_back_def read_message_def json_reply_def lit_def split: sum.splits)

text \<open>
  C6, as the code has it. For a POST request to \<open>/light-control\<close> whose body is read
  without error and is a JSON object with the string \<open>a\<close> as its \<open>action\<close>, whose
  timestamp (0 when absent) is converted without error and whose three console lines the
  console accepts, the answer is the success response with the message \<open>Received\<close>,
  \<open>a\<close>, \<open>command\<close>; and a client whose library reads that serialisation back gets
  \<open>a\<close> again from the text between the prefix and the suffix of the message. This
  holds for every such object, so in particular for those with the three recognised keys
  only.
\<close>

theorem action_round_trip:
  assumes "command rq = ''POST''" and "path rq = ''/light-control''"
    and "request_json L rq = Inr (PyDict d)"
    and "map_of d (lit ''action'') = Some (PyStr a)"
    and "convert_timestamp L d = Inr t"
    and "accepts L (console_lines L d t)"
    and "reads_back L [(lit ''status'', lit ''success''),
                       (lit ''message'', lit ''Received '' @ a @ lit '' command'')]"
  shows "handle_one_request L rq
           = (Response (json_reply L 200 (lit ''success'')
                          (lit ''Received '' @ a @ lit '' command'')),
              console_lines L d t)
         \<and> round_trip L rq = Some a"
proof -
  have fmt: "format_value L (dict_get d (lit ''action'') (PyStr (lit ''unknown''))) = a"
    using assms(4) by (simp add: dict_get_def format_value_def)
  have h: "handle_one_request L rq
             = (Response (json_reply L 200 (lit ''success'')
                            (lit ''Received '' @ a @ lit '' command'')),
                console_lines L d t)"
    using accepted_outcome [OF assms(1) assms(2) assms(3) assms(5) assms(6)] fmt by simp
  have st: "status (json_reply L 200 (lit ''success'')
                      (lit ''Received '' @ a @ lit '' command'')) = 200"
    by (simp add: json_reply_def)
  show ?thesis
    using h st read_message_reply [OF assms(7), of 200]
    by (simp add: round_trip_def extract_action_message)
qed

theorem action_round_trip_witness:
  "request_json sample_lib (post_light_control ''{\"timestamp\":1700000000000,\"controller_id\":\"ctrl-1\",\"action\":\"flash_red\"}'') = Inr (PyDict [(lit ''timestamp'', PyInt 1700000000000), (lit ''controller_id'', PyStr (lit ''ctrl-1'')),
      (lit ''action'', PyStr (lit ''flash_red''))])
   \<and> convert_timestamp sample_lib [(lit ''timestamp'', PyInt 1700000000000), (lit ''controller_id'', PyStr (lit ''ctrl-1'')),
      (lit ''action'', PyStr (lit ''flash_red''))] = Inr 1700000000
   \<and> accepts sample_lib (console_lines sample_lib [(lit ''timestamp'', PyInt 1700000000000), (lit ''controller_id'', PyStr (lit ''ctrl-1'')),
      (lit ''action'', PyStr (lit ''flash_red''))] 1700000000)
   \<and> reads_back sample_lib [(lit ''status'', lit ''success''),
                             (lit ''message'', lit ''Received flash_red command'')]
   \<and> fst (handle_one_request sample_lib (post_light_control ''{\"timestamp\":1700000000000,\"controller_id\":\"ctrl-1\",\"action\":\"flash_red\"}''))
       = Response \<lparr>status = 200, sent_headers = [(''Content-type'', ''application/json''),
                                (''Access-Control-Allow-Origin'', ''*'')],
                    body = ''{\"status\": \"success\", \"message\": \"Received flash_red command\"}''\<rparr>
   \<and> round_trip sample_lib (post_light_control ''{\"timestamp\":1700000000000,\"controller_id\":\"ctrl-1\",\"action\":\"flash_red\"}'') = Some (lit ''flash_red'')"
proof -
  let ?rq = "post_light_control ''{\"timestamp\":1700000000000,\"controller_id\":\"ctrl-1\",\"action\":\"flash_red\"}''"
  let ?d = "[(lit ''timestamp'', PyInt 1700000000000), (lit ''controller_id'', PyStr (lit ''ctrl-1'')),
      (lit ''action'', PyStr (lit ''flash_red''))] :: (pystr \<times> sfloat pyval) list"
  have c: "command ?rq = ''POST''" and p: "path ?rq = ''/light-control''"
    by (simp_all add: post_light_control_def)
  have rj: "request_json sample_lib ?rq = Inr (PyDict ?d)"
    by (simp add: sample_eval handler_eval)
  have a: "map_of ?d (lit ''action'') = Some (PyStr (lit ''flash_red''))"
    by (simp add: lit_def)
  have ct: "convert_timestamp sample_lib ?d = Inr 1700000000"
    by (simp add: sample_eval handler_eval)
  have ac: "accepts sample_lib (console_lines sample_lib ?d 1700000000)"
    by (simp add: sample_eval handler_eval)
  have msg: "lit ''Received '' @ lit ''flash_red'' @ lit '' command''
               = lit ''Received flash_red command''"
    by (simp add: lit_def)
  have rb: "reads_back sample_lib [(lit ''status'', lit ''success''),
                                   (lit ''message'', lit ''Received flash_red command'')]"
    by (simp add: reads_back_def sample_eval)
  have reply: "json_reply sample_lib 200 (lit ''success'') (lit ''Received flash_red command'')
                 = \<lparr>status = 200, sent_headers = [(''Content-type'', ''application/json''),
                                (''Access-Control-Allow-Origin'', ''*'')],
                    body = ''{\"status\": \"success\", \"message\": \"Received flash_red command\"}''\<rparr>"
    by (simp add: sample_eval handler_eval)
  have "handle_one_request sample_lib ?rq
          = (Response (json_reply sample_lib 200 (lit ''success'')
                         (lit ''Received flash_red command'')),
             console_lines sample_lib ?d 1700000000)
        \<and> round_trip sample_lib ?rq = Some (lit ''flash_red'')"
    using action_round_trip [OF c p rj a ct ac] rb by (simp only: msg simp_thms)
  then show ?thesis
    using rj ct ac rb by (simp only: reply fst_conv simp_thms)
qed

text \<open>
  Two objects with the three keys and a string action for which there is no success
  response to read the action from: the timestamp of the first is out of range, the
  action of the second cannot be printed.
\<close>

theorem round_trip_counterexample:
  "request_json sample_lib
     (post_light_control ''{\"timestamp\":100000000000000000000000,\"controller_id\":\"c\",\"action\":\"flash_red\"}'')
     = Inr (PyDict [(lit ''timestamp'', PyInt 100000000000000000000000),
                    (lit ''controller_id'', PyStr (lit ''c'')),
                    (lit ''action'', PyStr (lit ''flash_red''))])
   \<and> fst (handle_one_request sample_lib
         (post_light_control ''{\"timestamp\":100000000000000000000000,\"controller_id\":\"c\",\"action\":\"flash_red\"}''))
       = Response \<lparr>status = 400, sent_headers = [(''Content-type'', ''application/json''),
                                (''Access-Control-Allow-Origin'', ''*'')],
                    body = ''{\"status\": \"error\", \"message\": \"timestamp out of range for platform time_t\"}''\<rparr>
   \<and> round_trip sample_lib
         (post_light_control ''{\"timestamp\":100000000000000000000000,\"controller_id\":\"c\",\"action\":\"flash_red\"}'')
       = None
   \<and> request_json sample_lib
         (post_light_control (''{\"timestamp\":0,\"controller_id\":\"c\",\"action\":\"''
                              @ [CHR 0x5C] @ ''ud800\"}''))
       = Inr (PyDict [(lit ''timestamp'', PyInt 0), (lit ''controller_id'', PyStr (lit ''c'')),
                      (lit ''action'', PyStr [0xD800])])
   \<and> fst (handle_one_request sample_lib
         (post_light_control (''{\"timestamp\":0,\"controller_id\":\"c\",\"action\":\"''
                              @ [CHR 0x5C] @ ''ud800\"}'')))
       = Response \<lparr>status = 400, sent_headers = [(''Content-type'', ''application/json''),
                                (''Access-Control-Allow-Origin'', ''*'')],
                    body = ''{\"status\": \"error\", \"message\": \"'utf-8' codec can't encode character ''
                           @ [CHR 0x27, CHR 0x5C, CHR 0x5C]
                           @ ''ud800' in position 10: surrogates not allowed\"}''\<rparr>
   \<and> round_trip sample_lib
         (post_light_control (''{\"timestamp\":0,\"controller_id\":\"c\",\"action\":\"''
                              @ [CHR 0x5C] @ ''ud800\"}''))
       = None"
  by (simp add: round_trip_def sample_eval handler_eval request_eval)

section \<open>The same event submitted twice\<close>

text \<open>The outcome of a request does not depend on the console it is served from.\<close>

lemma serve_outcome: "fst (serve L console rq) = fst (handle_one_request L rq)"
  by (simp add: serve_def split: prod.splits)

text \<open>
  C7, as the code has it. An event whose body is read without error and is a JSON
  object, whose timestamp is converted without error and whose console lines the console
  accepts, submitted twice in succession to \<open>/light-control\<close>, is answered twice with
  status 200 and the same message. The second submission is handled like the first: its
  lines are printed again, nothing of the first is remembered, and served from any other
  console the request gets the same response.
\<close>

theorem resubmitted_event_accepted_again:
  assumes "command rq = ''POST''" and "path rq = ''/light-control''"
    and "request_json L rq = Inr (PyDict d)"
    and "convert_timestamp L d = Inr t"
    and "accepts L (console_lines L d t)"
  shows "serve L console rq
           = (Response (json_reply L 200 (lit ''success'')
                          (lit ''Received ''
                           @ format_value L (dict_get d (lit ''action'') (PyStr (lit ''unknown'')))
                           @ lit '' command'')),
              console @ console_lines L d t)
         \<and> serve L (console @ console_lines L d t) rq
           = (Response (json_reply L 200 (lit ''success'')
                          (lit ''Received ''
                           @ format_value L (dict_get d (lit ''action'') (PyStr (lit ''unknown'')))
                           @ lit '' command'')),
              console @ console_lines L d t @ console_lines L d t)
         \<and> fst (serve L other rq)
           = Response (json_reply L 200 (lit ''success'')
                         (lit ''Received ''
                          @ format_value L (dict_get d (lit ''action'') (PyStr (lit ''unknown'')))
                          @ lit '' command''))"
  using accepted_outcome [OF assms] by (simp add: serve_def)

theorem resubmitted_event_accepted_again_witness:
  "request_json sample_lib (post_light_control ''{\"timestamp\":1700000000000,\"controller_id\":\"ctrl-1\",\"action\":\"flash_red\"}'') = Inr (PyDict [(lit ''timestamp'', PyInt 1700000000000), (lit ''controller_id'', PyStr (lit ''ctrl-1'')),
      (lit ''action'', PyStr (lit ''flash_red''))])
   \<and> convert_timestamp sample_lib [(lit ''timestamp'', PyInt 1700000000000), (lit ''controller_id'', PyStr (lit ''ctrl-1'')),
      (lit ''action'', PyStr (lit ''flash_red''))] = Inr 1700000000
   \<and> accepts sample_lib (console_lines sample_lib [(lit ''timestamp'', PyInt 1700000000000), (lit ''controller_id'', PyStr (lit ''ctrl-1'')),
      (lit ''action'', PyStr (lit ''flash_red''))] 1700000000)
   \<and> serve sample_lib [] (post_light_control ''{\"timestamp\":1700000000000,\"controller_id\":\"ctrl-1\",\"action\":\"flash_red\"}'')
       = (Response \<lparr>status = 200, sent_headers = [(''Content-type'', ''application/json''),
                                (''Access-Control-Allow-Origin'', ''*'')],
                     body = ''{\"status\": \"success\", \"message\": \"Received flash_red command\"}''\<rparr>,
          [lit (CHR 0x0A # ''[22:13:20.000] Controller Input Received:''),
           lit ''  Controller ID: ctrl-1'', lit ''  Action: flash_red''])
   \<and> serve sample_lib
         [lit (CHR 0x0A # ''[22:13:20.000] Controller Input Received:''),
          lit ''  Controller ID: ctrl-1'', lit ''  Action: flash_red'']
         (post_light_control ''{\"timestamp\":1700000000000,\"controller_id\":\"ctrl-1\",\"action\":\"flash_red\"}'')
       = (Response \<lparr>status = 200, sent_headers = [(''Content-type'', ''application/json''),
                                (''Access-Control-Allow-Origin'', ''*'')],
                     body = ''{\"status\": \"success\", \"message\": \"Received flash_red command\"}''\<rparr>,
          [lit (CHR 0x0A # ''[22:13:20.000] Controller Input Received:''),
           lit ''  Controller ID: ctrl-1'', lit ''  Action: flash_red'',
           lit (CHR 0x0A # ''[22:13:20.000] Controller Input Received:''),
           lit ''  Controller ID: ctrl-1'', lit ''  Action: flash_red''])"
proof -
  let ?rq = "post_light_control ''{\"timestamp\":1700000000000,\"controller_id\":\"ctrl-1\",\"action\":\"flash_red\"}''"
  let ?d = "[(lit ''timestamp'', PyInt 1700000000000), (lit ''controller_id'', PyStr (lit ''ctrl-1'')),
      (lit ''action'', PyStr (lit ''flash_red''))] :: (pystr \<times> sfloat pyval) list"
  have c: "command ?rq = ''POST''" and p: "path ?rq = ''/light-control''"
    by (simp_all add: post_light_control_def)
  have rj: "request_json sample_lib ?rq = Inr (PyDict ?d)"
    by (simp add: sample_eval handler_eval)
  have ct: "convert_timestamp sample_lib ?d = Inr 1700000000"
    by (simp add: sample_eval handler_eval)
  have ac: "accepts sample_lib (console_lines sample_lib ?d 1700000000)"
    by (simp add: sample_eval handler_eval)
  have reply: "json_reply sample_lib 200 (lit ''success'')
                 (lit ''Received ''
                  @ format_value sample_lib (dict_get ?d (lit ''action'') (PyStr (lit ''unknown'')))
                  @ lit '' command'')
               = \<lparr>status = 200, sent_headers = [(''Content-type'', ''application/json''),
                                (''Access-Control-Allow-Origin'', ''*'')],
                  body = ''{\"status\": \"success\", \"message\": \"Received flash_red command\"}''\<rparr>"
    by (simp add: sample_eval handler_eval)
  have lines: "console_lines sample_lib ?d 1700000000
               = [lit (CHR 0x0A # ''[22:13:20.000] Controller Input Received:''),
                  lit ''  Controller ID: ctrl-1'', lit ''  Action: flash_red'']"
    by (simp add: sample_eval handler_eval)
  show ?thesis
    using resubmitted_event_accepted_again [OF c p rj ct ac, of "[]"] rj ct ac
    by (simp only: reply lines append.simps simp_thms)
qed

text \<open>
  An event with the three keys that is answered with 400 both times: its controller id
  cannot be printed.
\<close>

theorem resubmission_counterexample:
  "request_json sample_lib
     (post_light_control (''{\"timestamp\":1700000000000,\"controller_id\":\"''
                          @ [CHR 0x5C] @ ''ud800\",\"action\":\"flash_red\"}''))
     = Inr (PyDict [(lit ''timestamp'', PyInt 1700000000000),
                    (lit ''controller_id'', PyStr [0xD800]),
                    (lit ''action'', PyStr (lit ''flash_red''))])
   \<and> fst (serve sample_lib []
         (post_light_control (''{\"timestamp\":1700000000000,\"controller_id\":\"''
                              @ [CHR 0x5C] @ ''ud800\",\"action\":\"flash_red\"}'')))
       = Response \<lparr>status = 400, sent_headers = [(''Content-type'', ''application/json''),
                                (''Access-Control-Allow-Origin'', ''*'')],
                    body = ''{\"status\": \"error\", \"message\": \"'utf-8' codec can't encode character ''
                           @ [CHR 0x27, CHR 0x5C, CHR 0x5C]
                           @ ''ud800' in position 17: surrogates not allowed\"}''\<rparr>
   \<and> fst (serve sample_lib
         (snd (serve sample_lib []
            (post_light_control (''{\"timestamp\":1700000000000,\"controller_id\":\"''
                                 @ [CHR 0x5C] @ ''ud800\",\"action\":\"flash_red\"}''))))
         (post_light_control (''{\"timestamp\":1700000000000,\"controller_id\":\"''
                              @ [CHR 0x5C] @ ''ud800\",\"action\":\"flash_red\"}'')))
       = Response \<lparr>status = 400, sent_headers = [(''Content-type'', ''application/json''),
                                (''Access-Control-Allow-Origin'', ''*'')],
                    body = ''{\"status\": \"error\", \"message\": \"'utf-8' codec can't encode character ''
                           @ [CHR 0x27, CHR 0x5C, CHR 0x5C]
                           @ ''ud800' in position 17: surrogates not allowed\"}''\<rparr>"
  by (simp add: serve_outcome sample_eval handler_eval request_eval)

section \<open>Timestamps that cannot be converted\<close>

text \<open>
  C8, as the code has it. For a POST request to \<open>/light-control\<close> whose body is a JSON object:
  a timestamp that is a string, \<open>null\<close>, an array or an object makes the division raise a
  \<open>TypeError\<close>; and whenever the conversion of the timestamp raises (so also for a number
  out of range) the request is never answered with 200, and is answered with 400 and the
  description of the error when the console accepts the error line. Nothing is said of
  \<open>true\<close> and \<open>false\<close>: they are the numbers 1 and 0 to the division.
\<close>

theorem bad_timestamp_rejected:
  assumes "command rq = ''POST''" and "path rq = ''/light-control''"
    and "request_json L rq = Inr (PyDict d)"
  shows "(type_name (dict_get d (lit ''timestamp'') (PyInt 0))
            \<in> {''str'', ''NoneType'', ''list'', ''dict''} \<longrightarrow>
          convert_timestamp L d
            = Inl (unsupported_operand (dict_get d (lit ''timestamp'') (PyInt 0))))
       \<and> (convert_timestamp L d = Inl e \<longrightarrow>
            status_of (fst (handle_one_request L rq)) \<noteq> Some 200)
       \<and> (convert_timestamp L d = Inl e \<and> py_print L (error_line e) = None \<longrightarrow>
            handle_one_request L rq
              = (Response (json_reply L 400 (lit ''error'') (exc_str e)), [error_line e]))"
proof -
  from assms(3) obtain post_data doc where
    rd: "read_body L rq = Inr post_data" and
    dec: "bytes_decode L post_data = Inr doc" and
    js: "json_loads L doc = Inr (PyDict d)"
    by (rule request_json_cases)
  have operand: "type_name (dict_get d (lit ''timestamp'') (PyInt 0))
                   \<in> {''str'', ''NoneType'', ''list'', ''dict''} \<Longrightarrow>
                 convert_timestamp L d
                   = Inl (unsupported_operand (dict_get d (lit ''timestamp'') (PyInt 0)))"
    by (cases "dict_get d (lit ''timestamp'') (PyInt 0)")
       (simp_all add: convert_timestamp_def truediv_def)
  have raised: "handle_one_request L rq = except_clause L e" if "convert_timestamp L d = Inl e"
    using that assms(1) do_POST_parse_error [OF assms(2) rd, of e]
    by (simp add: handle_POST parse_event_dict [OF dec js])
  show ?thesis
    using operand raised except_clause_not_200 [of L e] except_clause_accepted [of L e]
    by auto
qed

theorem bad_timestamp_rejected_witness:
  "request_json sample_lib (post_light_control ''{\"timestamp\":\"abc\"}'')
     = Inr (PyDict [(lit ''timestamp'', PyStr (lit ''abc''))])
   \<and> convert_timestamp sample_lib [(lit ''timestamp'', PyStr (lit ''abc'') :: sfloat pyval)]
       = Inl (unsupported_operand (PyStr (lit ''abc'') :: sfloat pyval))
   \<and> handle_one_request sample_lib (post_light_control ''{\"timestamp\":\"abc\"}'')
       = (Response \<lparr>status = 400, sent_headers = [(''Content-type'', ''application/json''),
                                (''Access-Control-Allow-Origin'', ''*'')],
                     body = ''{\"status\": \"error\", \"message\": \"unsupported operand type(s) for /: 'str' and 'int'\"}''\<rparr>,
          [lit (''Error processing request: unsupported operand type(s) for /: 'str' and ''
                @ quoted ''int'')])
   \<and> request_json sample_lib (post_light_control ''{\"timestamp\":100000000000000000000000}'')
       = Inr (PyDict [(lit ''timestamp'', PyInt 100000000000000000000000)])
   \<and> handle_one_request sample_lib
         (post_light_control ''{\"timestamp\":100000000000000000000000}'')
       = (Response \<lparr>status = 400, sent_headers = [(''Content-type'', ''application/json''),
                                (''Access-Control-Allow-Origin'', ''*'')],
                     body = ''{\"status\": \"error\", \"message\": \"timestamp out of range for platform time_t\"}''\<rparr>,
          [lit ''Error processing request: timestamp out of range for platform time_t''])"
proof -
  let ?rq1 = "post_light_control ''{\"timestamp\":\"abc\"}''"
  let ?d1 = "[(lit ''timestamp'', PyStr (lit ''abc'') :: sfloat pyval)]"
  let ?e1 = "unsupported_operand (PyStr (lit ''abc'') :: sfloat pyval)"
  let ?rq2 = "post_light_control ''{\"timestamp\":100000000000000000000000}''"
  let ?d2 = "[(lit ''timestamp'', PyInt 100000000000000000000000 :: sfloat pyval)]"
  let ?e2 = "PyExc ''OverflowError'' (lit ''timestamp out of range for platform time_t'')"
  have c1: "command ?rq1 = ''POST''" and p1: "path ?rq1 = ''/light-control''"
    and c2: "command ?rq2 = ''POST''" and p2: "path ?rq2 = ''/light-control''"
    by (simp_all add: post_light_control_def)
  have rj1: "request_json sample_lib ?rq1 = Inr (PyDict ?d1)"
    by (simp add: sample_eval handler_eval)
  have rj2: "request_json sample_lib ?rq2 = Inr (PyDict ?d2)"
    by (simp add: sample_eval handler_eval)
  have ty1: "type_name (dict_get ?d1 (lit ''timestamp'') (PyInt 0))
               \<in> {''str'', ''NoneType'', ''list'', ''dict''}"
    by (simp add: dict_get_def)
  have v1: "dict_get ?d1 (lit ''timestamp'') (PyInt 0) = PyStr (lit ''abc'')"
    by (simp add: dict_get_def)
  have ct1: "convert_timestamp sample_lib ?d1 = Inl ?e1"
    using bad_timestamp_rejected [OF c1 p1 rj1] ty1 v1 by simp
  have ct2: "convert_timestamp sample_lib ?d2 = Inl ?e2"
    by (simp add: sample_eval handler_eval)
  have pr1: "py_print sample_lib (error_line ?e1) = None"
    by (simp add: sample_eval handler_eval)
  have pr2: "py_print sample_lib (error_line ?e2) = None"
    by (simp add: sample_eval handler_eval)
  have h1: "handle_one_request sample_lib ?rq1
              = (Response (json_reply sample_lib 400 (lit ''error'') (exc_str ?e1)), [error_line ?e1])"
    using bad_timestamp_rejected [OF c1 p1 rj1, of ?e1] ct1 pr1 by simp
  have h2: "handle_one_request sample_lib ?rq2
              = (Response (json_reply sample_lib 400 (lit ''error'') (exc_str ?e2)), [error_line ?e2])"
    using bad_timestamp_rejected [OF c2 p2 rj2, of ?e2] ct2 pr2 by simp
  have r1: "json_reply sample_lib 400 (lit ''error'') (exc_str ?e1)
              = \<lparr>status = 400, sent_headers = [(''Content-type'', ''application/json''),
                                (''Access-Control-Allow-Origin'', ''*'')],
                 body = ''{\"status\": \"error\", \"message\": \"unsupported operand type(s) for /: 'str' and 'int'\"}''\<rparr>"
    by (simp add: sample_eval handler_eval)
  have r2: "json_reply sample_lib 400 (lit ''error'') (exc_str ?e2)
              = \<lparr>status = 400, sent_headers = [(''Content-type'', ''application/json''),
                                (''Access-Control-Allow-Origin'', ''*'')],
                 body = ''{\"status\": \"error\", \"message\": \"timestamp out of range for platform time_t\"}''\<rparr>"
    by (simp add: sample_eval handler_eval)
  have l1: "error_line ?e1
              = lit (''Error processing request: unsupported operand type(s) for /: 'str' and ''
                     @ quoted ''int'')"
    by (simp add: sample_eval handler_eval)
  have l2: "error_line ?e2
              = lit ''Error processing request: timestamp out of range for platform time_t''"
    by (simp add: sample_eval handler_eval)
  show ?thesis
    using rj1 rj2 ct1 h1 h2 by (simp only: r1 r2 l1 l2 simp_thms)
qed

text \<open>
  A timestamp that is no JSON number and is accepted: \<open>true\<close> stands for one millisecond.
\<close>

theorem boolean_timestamp_counterexample:
  "request_json sample_lib (post_light_control ''{\"timestamp\":true}'')
     = Inr (PyDict [(lit ''timestamp'', PyBool True)])
   \<and> handle_one_request sample_lib (post_light_control ''{\"timestamp\":true}'')
       = (Response \<lparr>status = 200, sent_headers = [(''Content-type'', ''application/json''),
                                (''Access-Control-Allow-Origin'', ''*'')],
                     body = ''{\"status\": \"success\", \"message\": \"Received unknown command\"}''\<rparr>,
          [lit (CHR 0x0A # ''[00:00:00.001] Controller Input Received:''),
           lit ''  Controller ID: Unknown'', lit ''  Action: Unknown''])"
  by (simp add: sample_eval handler_eval request_eval)

section \<open>Bodies that are JSON but no object\<close>

text \<open>
  C9. A POST request to \<open>/light-control\<close> whose body is valid UTF-8 JSON but no object is
  never answered with 200: \<open>data.get\<close> raises an \<open>AttributeError\<close>, and the answer is 400
  with status \<open>error\<close> and the description of that error, the console accepting the error
  line.
\<close>

theorem non_object_rejected:
  assumes "command rq = ''POST''" and "path rq = ''/light-control''"
    and "request_json L rq = Inr v" and "type_name v \<noteq> ''dict''"
  shows "status_of (fst (handle_one_request L rq)) \<noteq> Some 200
       \<and> (py_print L (error_line (no_attribute v ''get'')) = None \<longrightarrow>
            handle_one_request L rq
              = (Response (json_reply L 400 (lit ''error'') (exc_str (no_attribute v ''get''))),
                 [error_line (no_attribute v ''get'')]))"
proof -
  from assms(3) obtain post_data doc where
    rd: "read_body L rq = Inr post_data" and
    dec: "bytes_decode L post_data = Inr doc" and
    js: "json_loads L doc = Inr v"
    by (rule request_json_cases)
  have "handle_one_request L rq = except_clause L (no_attribute v ''get'')"
    using assms(1) do_POST_parse_error [OF assms(2) rd parse_event_non_dict [OF dec js assms(4)]]
    by (simp add: handle_POST)
  then show ?thesis
    using except_clause_not_200 [of L "no_attribute v ''get''"]
          except_clause_accepted [of L "no_attribute v ''get''"]
    by auto
qed

theorem non_object_rejected_witness:
  "request_json sample_lib (post_light_control ''[1, 2]'') = Inr (PyList [PyInt 1, PyInt 2])
   \<and> handle_one_request sample_lib (post_light_control ''[1, 2]'')
       = (Response \<lparr>status = 400, sent_headers = [(''Content-type'', ''application/json''),
                                (''Access-Control-Allow-Origin'', ''*'')],
                     body = ''{\"status\": \"error\", \"message\": \"'list' object has no attribute 'get'\"}''\<rparr>,
          [lit (''Error processing request: 'list' object has no attribute ''
                @ quoted ''get'')])"
proof -
  let ?rq = "post_light_control ''[1, 2]''"
  let ?v = "PyList [PyInt 1, PyInt 2] :: sfloat pyval"
  have c: "command ?rq = ''POST''" and p: "path ?rq = ''/light-control''"
    by (simp_all add: post_light_control_def)
  have rj: "request_json sample_lib ?rq = Inr ?v"
    by (simp add: sample_eval handler_eval)
  have ty: "type_name ?v \<noteq> ''dict''" by simp
  have pr: "py_print sample_lib (error_line (no_attribute ?v ''get'')) = None"
    by (simp add: sample_eval handler_eval)
  have r: "json_reply sample_lib 400 (lit ''error'') (exc_str (no_attribute ?v ''get''))
             = \<lparr>status = 400, sent_headers = [(''Content-type'', ''application/json''),
                                (''Access-Control-Allow-Origin'', ''*'')],
                body = ''{\"status\": \"error\", \"message\": \"'list' object has no attribute 'get'\"}''\<rparr>"
    by (simp add: sample_eval handler_eval)
  have l: "error_line (no_attribute ?v ''get'')
             = lit (''Error processing request: 'list' object has no attribute ''
                    @ quoted ''get'')"
    by (simp add: sample_eval handler_eval)
  show ?thesis
    using non_object_rejected [OF c p rj ty] pr rj by (simp only: r l simp_thms)
qed

section \<open>What the response depends on\<close>




end
